theory Spec2Isabelle
  imports Main "HOL-Library.Sublist"
begin

section \<open>Limits and platform detection (main.py, lines 27--47 and 133--137)\<close>

text \<open>
  \<^verbatim>\<open>
  FREE_MAX_SIZE = 1 * 1024 * 1024 * 1024  # 1GB
  PREMIUM_MAX_SIZE = 5 * 1024 * 1024 * 1024  # 5GB
  \<close>
  Python integers are unbounded; byte counts are natural numbers.
\<close>

definition FREE_MAX_SIZE :: nat where
  "FREE_MAX_SIZE = 1 * 1024 * 1024 * 1024"

definition PREMIUM_MAX_SIZE :: nat where
  "PREMIUM_MAX_SIZE = 5 * 1024 * 1024 * 1024"

text \<open>
  A Python \<^verbatim>\<open>str\<close> is a sequence of Unicode code points: a URL is a list of
  natural numbers. The patterns of \<^verbatim>\<open>PLATFORM_PATTERNS\<close> are ASCII text, built
  from literal characters (a dot is always escaped) and alternation only, so the regular
  expressions needed are these two forms.
\<close>

datatype regex = Lit string | Alt regex regex

definition codes :: "string \<Rightarrow> nat list" where
  "codes s = map of_char s"

text \<open>
  \<^verbatim>\<open>re.IGNORECASE\<close> on a \<^verbatim>\<open>str\<close> pattern compares by Unicode case. For
  a pattern character that is an ASCII letter the code points that match are its two ASCII
  cases and four more: U+0130 and U+0131 match \<open>i\<close>, U+017F matches \<open>s\<close>, U+212A
  matches \<open>k\<close>. Any other ASCII pattern character matches only itself. So a code point
  \<open>c\<close> matches the ASCII pattern character \<open>p\<close> exactly when both fold to the same
  code point.
\<close>

definition ignorecase_fold :: "nat \<Rightarrow> nat" where
  "ignorecase_fold c =
     (if 65 \<le> c \<and> c \<le> 90 then c + 32
      else if c = 0x130 \<or> c = 0x131 then 0x69
      else if c = 0x17F then 0x73
      else if c = 0x212A then 0x6B
      else c)"

definition ascii_upper :: "nat \<Rightarrow> nat" where
  "ascii_upper c = (if 97 \<le> c \<and> c \<le> 122 then c - 32 else c)"

text \<open>
  \<^verbatim>\<open>re.search(pattern, url, re.IGNORECASE)\<close> looks for a match starting at any
  position of the URL.
\<close>

fun match_here :: "regex \<Rightarrow> nat list \<Rightarrow> bool" where
  "match_here (Lit s) u = prefix (map ignorecase_fold (codes s)) (map ignorecase_fold u)"
| "match_here (Alt a b) u = (match_here a u \<or> match_here b u)"

fun re_search :: "regex \<Rightarrow> nat list \<Rightarrow> bool" where
  "re_search r [] = match_here r []"
| "re_search r (c # cs) = (match_here r (c # cs) \<or> re_search r cs)"

text \<open>
  A Python dict keeps its keys in insertion order, and \<^verbatim>\<open>.items()\<close> iterates in
  that order: the table is an association list.
\<close>

definition PLATFORM_PATTERNS :: "(string \<times> regex) list" where
  "PLATFORM_PATTERNS =
    [(''youtube'', Alt (Lit ''youtube.com'') (Lit ''youtu.be'')),
     (''instagram'', Lit ''instagram.com''),
     (''tiktok'', Lit ''tiktok.com''),
     (''twitter'', Alt (Lit ''twitter.com'') (Lit ''x.com'')),
     (''facebook'', Lit ''facebook.com''),
     (''vimeo'', Lit ''vimeo.com''),
     (''soundcloud'', Lit ''soundcloud.com''),
     (''spotify'', Lit ''spotify.com'')]"

text \<open>
  \<^verbatim>\<open>
  def detect_platform(url: str) -> str:
      for platform, pattern in PLATFORM_PATTERNS.items():
          if re.search(pattern, url, re.IGNORECASE):
              return platform
      return "other"
  \<close>
\<close>

fun detect_in :: "(string \<times> regex) list \<Rightarrow> nat list \<Rightarrow> string" where
  "detect_in [] url = ''other''"
| "detect_in ((platform, pattern) # rest) url =
     (if re_search pattern url then platform else detect_in rest url)"

definition detect_platform :: "nat list \<Rightarrow> string" where
  "detect_platform url = detect_in PLATFORM_PATTERNS url"

text \<open>
  The wording of the specification, for comparison: an entry of the table matches a URL
  when one of its literal alternatives occurs in the URL as a contiguous substring,
  ignoring case: some contiguous part of the URL folds to what the alternative folds to.
\<close>

fun alternatives :: "regex \<Rightarrow> string list" where
  "alternatives (Lit s) = [s]"
| "alternatives (Alt a b) = alternatives a @ alternatives b"

definition occurs_ignoring_case :: "regex \<Rightarrow> nat list \<Rightarrow> bool" where
  "occurs_ignoring_case r url =
     list_ex (\<lambda>s. sublist (map ignorecase_fold (codes s)) (map ignorecase_fold url))
       (alternatives r)"

definition first_match :: "nat list \<Rightarrow> string" where
  "first_match url =
     (case find (\<lambda>(platform, pattern). occurs_ignoring_case pattern url) PLATFORM_PATTERNS of
        None \<Rightarrow> ''other''
      | Some (platform, pattern) \<Rightarrow> platform)"

section \<open>Quality keyboard and callback tokens (main.py, lines 47 and 139--152)\<close>

definition QUALITY_OPTIONS :: "string list" where
  "QUALITY_OPTIONS =
     [''180p'', ''240p'', ''360p'', ''480p'', ''720p'', ''1080p'', ''1440p'', ''4k'', ''best'']"

record button =
  button_text :: string
  callback_data :: string

text \<open>The token \<^verbatim>\<open>f"quality:{quality}:{url[:50]}"\<close>.\<close>

definition callback_token :: "string \<Rightarrow> string \<Rightarrow> string" where
  "callback_token quality url = ''quality:'' @ quality @ '':'' @ take 50 url"

text \<open>
  \<^verbatim>\<open>
  def get_quality_keyboard(url: str) -> InlineKeyboardMarkup:
      keyboard = []
      row = []
      for i, quality in enumerate(QUALITY_OPTIONS):
          row.append(InlineKeyboardButton(quality, callback_data=f"quality:{quality}:{url[:50]}"))
          if len(row) == 3:
              keyboard.append(row)
              row = []
      if row:
          keyboard.append(row)
      keyboard.append([InlineKeyboardButton("... Audio Only (MP3)", callback_data=f"quality:audio:{url[:50]}")])
      return InlineKeyboardMarkup(keyboard)
  \<close>
  The loop carries \<open>row\<close> and \<open>keyboard\<close>. The label of the audio button starts with
  a pictograph, written here as the bytes the source file holds.
\<close>

fun keyboard_rows :: "string \<Rightarrow> string list \<Rightarrow> button list \<Rightarrow> button list list \<Rightarrow> button list list" where
  "keyboard_rows url [] row keyboard = (if row \<noteq> [] then keyboard @ [row] else keyboard)"
| "keyboard_rows url (quality # rest) row keyboard =
     (let row' = row @ [\<lparr>button_text = quality, callback_data = callback_token quality url\<rparr>]
      in if length row' = 3 then keyboard_rows url rest [] (keyboard @ [row'])
         else keyboard_rows url rest row' keyboard)"

definition audio_label :: string where
  "audio_label =
     [CHR 0xEF, CHR 0xA3, CHR 0xBF, CHR 0xC3, CHR 0xBC, CHR 0xC3, CHR 0xA9, CHR 0xC2, CHR 0xB5]
     @ '' Audio Only (MP3)''"

definition get_quality_keyboard :: "string \<Rightarrow> button list list" where
  "get_quality_keyboard url =
     keyboard_rows url QUALITY_OPTIONS [] []
     @ [ [\<lparr>button_text = audio_label, callback_data = callback_token ''audio'' url\<rparr>] ]"

section \<open>Exceptions and the pieces of Python the handler uses\<close>

text \<open>
  The exceptions that can arise in the handler: an index out of range, a missing dict key,
  a missing file, and any exception raised inside a collaborator (the chat transport, the
  bookkeeping API, the extraction engine), which carries its message.
\<close>

datatype exn = IndexError | KeyError string | FileNotFoundError string | Error string

text \<open>\<^verbatim>\<open>s.split(sep)\<close> for a one-character separator: never empty.\<close>

fun split_on :: "char \<Rightarrow> string \<Rightarrow> string list" where
  "split_on sep [] = [ [] ]"
| "split_on sep (c # cs) =
     (if c = sep then [] # split_on sep cs
      else (case split_on sep cs of [] \<Rightarrow> [ [c] ] | w # ws \<Rightarrow> (c # w) # ws))"

text \<open>\<^verbatim>\<open>xs[i]\<close> for an index that is not negative.\<close>

definition py_index :: "'a list \<Rightarrow> nat \<Rightarrow> exn + 'a" where
  "py_index xs i = (if i < length xs then Inr (xs ! i) else Inl IndexError)"

text \<open>\<^verbatim>\<open>s.rsplit(".", 1)[0]\<close>: the text before the last dot, all of it when there is none.\<close>

definition rsplit_dot_head :: "string \<Rightarrow> string" where
  "rsplit_dot_head s =
     (if CHR ''.'' \<in> set s then rev (tl (dropWhile (\<lambda>c. c \<noteq> CHR ''.'') (rev s))) else s)"

text \<open>
  The format string handed to the extraction engine is one of three; the capped one
  interpolates the height twice:
  \<^verbatim>\<open>"bestaudio/best"\<close>,
  \<^verbatim>\<open>f"bestvideo[height<={height}]+bestaudio/best[height<={height}]"\<close>,
  \<^verbatim>\<open>"bestvideo+bestaudio/best"\<close>.
\<close>

datatype format_spec = Bestaudio_best | Height_capped nat | Bestvideo_bestaudio_best

text \<open>
  \<open>postprocessor_mp3\<close> stands for the \<^verbatim>\<open>FFmpegExtractAudio\<close> entry (codec mp3,
  quality 192) of the audio options.
\<close>

record ydl_opts =
  opt_format :: format_spec
  postprocessor_mp3 :: bool
  merge_output_format :: "string option"
  outtmpl :: string

text \<open>The dict literal of lines 257--258.\<close>

definition heights :: "(string \<times> nat option) list" where
  "heights =
     [(''180p'', Some 180), (''240p'', Some 240), (''360p'', Some 360), (''480p'', Some 480),
      (''720p'', Some 720), (''1080p'', Some 1080), (''1440p'', Some 1440), (''4k'', Some 2160),
      (''best'', None)]"

text \<open>
  Lines 209--210: \<^verbatim>\<open>data = query.data.split(":"); quality = data[1]\<close>.
\<close>

definition token_quality :: "string \<Rightarrow> exn + string" where
  "token_quality data = py_index (split_on CHR '':'' data) 1"

text \<open>
  Lines 246--260, the choice of the format. \<^verbatim>\<open>if height\<close> is Python truthiness:
  \<open>None\<close> and \<open>0\<close> are false.
\<close>

definition select_format :: "string \<Rightarrow> exn + format_spec" where
  "select_format quality =
     (if quality = ''audio'' then Inr Bestaudio_best
      else (case map_of heights quality of
              None \<Rightarrow> Inl (KeyError quality)
            | Some height \<Rightarrow>
                (case height of
                   None \<Rightarrow> Inr Bestvideo_bestaudio_best
                 | Some h \<Rightarrow> if h \<noteq> 0 then Inr (Height_capped h) else Inr Bestvideo_bestaudio_best)))"

text \<open>Lines 246--266, the whole of \<^verbatim>\<open>ydl_opts\<close>; \<open>uid\<close> is \<^verbatim>\<open>user.id\<close> in decimal.\<close>

definition configure :: "string \<Rightarrow> string \<Rightarrow> exn + ydl_opts" where
  "configure uid quality =
     (case select_format quality of
        Inl e \<Rightarrow> Inl e
      | Inr f \<Rightarrow>
          Inr \<lparr>opt_format = f,
               postprocessor_mp3 = (quality = ''audio''),
               merge_output_format = (if quality = ''audio'' then None else Some ''mp4''),
               outtmpl = ''/tmp/'' @ uid @ ''_%(title)s.%(ext)s''\<rparr>)"

section \<open>The collaborators of the download handler\<close>

text \<open>
  A \<^verbatim>\<open>TelegramUser\<close> entity as \<^verbatim>\<open>get_user\<close> returns it. A field is \<open>None\<close>
  when the key is absent or null. The entity always carries its id, so as a dict it is
  never empty and \<^verbatim>\<open>if db_user\<close> tests only for \<open>None\<close>.
\<close>

record db_user =
  is_premium :: "bool option"
  is_banned :: "bool option"
  total_downloads :: "int option"
  total_data_downloaded :: "int option"

text \<open>What \<^verbatim>\<open>extract_info\<close> returns, and what \<^verbatim>\<open>prepare_filename\<close> makes of it.\<close>

record info =
  info_title :: "string option"
  info_duration :: "nat option"
  prepared_filename :: string

text \<open>The payload of \<^verbatim>\<open>log_download\<close> (lines 231--239).\<close>

record download_data =
  dl_telegram_user_id :: string
  dl_url :: string
  dl_platform :: string
  dl_quality :: string
  dl_status :: string
  dl_media_type :: string
  dl_format :: string

text \<open>
  The three payloads of \<^verbatim>\<open>update_download\<close>, holding the values the source puts in:
  \<^item> lines 286--289: status \<open>failed\<close>, the message formatted from the file size and the
    limit;
  \<^item> lines 321--326: status \<open>completed\<close>, title, file size, duration;
  \<^item> lines 343--346: status \<open>failed\<close>, the message \<^verbatim>\<open>str(e)[:500]\<close> of the exception.
\<close>

datatype update_data =
    Upd_too_large nat nat
  | Upd_completed string nat "nat option"
  | Upd_failed exn

fun upd_status :: "update_data \<Rightarrow> string" where
  "upd_status (Upd_too_large file_size max_size) = ''failed''"
| "upd_status (Upd_completed title file_size duration) = ''completed''"
| "upd_status (Upd_failed e) = ''failed''"

text \<open>
  The texts shown to the user, each holding the values the source formats into it:
  \<open>Msg_too_large_free\<close> is the text of lines 293--294, which ends in
  \<^verbatim>\<open>Upgrade to Premium for larger files!\<close>; \<open>Msg_too_large\<close> is the text of
  line 297; \<open>Msg_error\<close> is \<^verbatim>\<open>f"{error_msg}\n\nError: {str(e)[:100]}"\<close>.
\<close>

datatype message =
    Msg_session_expired
  | Msg_banned
  | Msg_starting
  | Msg_downloading
  | Msg_too_large_free nat nat
  | Msg_too_large nat
  | Msg_uploading
  | Msg_complete
  | Msg_error string exn

fun upsell_hint :: "message \<Rightarrow> bool" where
  "upsell_hint (Msg_too_large_free file_size max_size) = True"
| "upsell_hint m = False"

text \<open>
  The calls the handler makes on its collaborators, in the order made.
  \<open>Send_audio title filename\<close> and \<open>Send_video filename title quality\<close> carry what the
  file name and the caption are made of.
\<close>

datatype event =
    Answer
  | Edit_text message
  | Get_user string
  | Log_download download_data
  | Extract_info string ydl_opts
  | Os_remove string
  | Read_file string
  | Send_audio string string
  | Send_video string string string
  | Update_download "string option" update_data
  | Sync_user string int int
  | Get_settings
  | Logger_error exn

text \<open>The places of the handler where a collaborator is called over the network.\<close>

datatype site =
    At_answer | At_edit_expired | At_get_user | At_edit_banned | At_log_download
  | At_edit_starting | At_edit_downloading | At_extract_info | At_update_too_large
  | At_edit_too_large | At_edit_uploading | At_send | At_update_completed | At_sync_user
  | At_edit_complete | At_update_failed | At_get_settings | At_edit_error

text \<open>
  One callback query and the behaviour of the collaborators during its handling:
  \<^item> \<open>query_data\<close> is \<^verbatim>\<open>query.data\<close>;
  \<^item> \<open>pending_url\<close>, \<open>pending_platform\<close> are the two entries of
    \<^verbatim>\<open>context.user_data\<close>, \<open>None\<close> when absent;
  \<^item> \<open>user_id\<close> is \<^verbatim>\<open>str(user.id)\<close>;
  \<^item> \<open>raises s\<close> is the exception the call at \<open>s\<close> raises, \<open>None\<close> when it returns;
  \<^item> \<open>found_user\<close> is what \<^verbatim>\<open>get_user\<close> returns;
  \<^item> \<open>created_id\<close> is \<^verbatim>\<open>download_record.get("id")\<close>;
  \<^item> \<open>extracted\<close> is what \<^verbatim>\<open>extract_info\<close> returns and \<open>downloaded\<close> the files
    it writes, with their sizes in bytes;
  \<^item> \<open>settings_error_message\<close> is the \<^verbatim>\<open>error_message\<close> setting, if set.
\<close>

record env =
  query_data :: string
  pending_url :: "string option"
  pending_platform :: "string option"
  user_id :: string
  raises :: "site \<Rightarrow> exn option"
  found_user :: "db_user option"
  created_id :: "string option"
  extracted :: info
  downloaded :: "string \<rightharpoonup> nat"
  settings_error_message :: "string option"

text \<open>The state a run changes: the files on disk with their sizes, and the calls made.\<close>

record world =
  files :: "string \<rightharpoonup> nat"
  calls :: "event list"

type_synonym 'a io = "world \<Rightarrow> (exn + 'a) \<times> world"

definition io_return :: "'a \<Rightarrow> 'a io" where
  "io_return x = (\<lambda>w. (Inr x, w))"

definition io_raise :: "exn \<Rightarrow> 'a io" where
  "io_raise e = (\<lambda>w. (Inl e, w))"

definition io_bind :: "'a io \<Rightarrow> ('a \<Rightarrow> 'b io) \<Rightarrow> 'b io" where
  "io_bind m f = (\<lambda>w. case m w of (Inl e, w') \<Rightarrow> (Inl e, w') | (Inr x, w') \<Rightarrow> f x w')"

definition try_except :: "'a io \<Rightarrow> (exn \<Rightarrow> 'a io) \<Rightarrow> 'a io" where
  "try_except m h = (\<lambda>w. case m w of (Inl e, w') \<Rightarrow> h e w' | (Inr x, w') \<Rightarrow> (Inr x, w'))"

definition lift :: "exn + 'a \<Rightarrow> 'a io" where
  "lift r = (case r of Inl e \<Rightarrow> io_raise e | Inr x \<Rightarrow> io_return x)"

definition emit :: "event \<Rightarrow> unit io" where
  "emit ev = (\<lambda>w. (Inr (), w\<lparr>calls := calls w @ [ev]\<rparr>))"

text \<open>A call over the network: it is made, then it returns or raises as the run has it.\<close>

definition call :: "env \<Rightarrow> site \<Rightarrow> event \<Rightarrow> unit io" where
  "call env s ev =
     io_bind (emit ev) (\<lambda>_. case raises env s of None \<Rightarrow> io_return () | Some e \<Rightarrow> io_raise e)"

definition get_user :: "env \<Rightarrow> (db_user option) io" where
  "get_user env =
     io_bind (call env At_get_user (Get_user (user_id env))) (\<lambda>_. io_return (found_user env))"

definition log_download :: "env \<Rightarrow> download_data \<Rightarrow> (string option) io" where
  "log_download env d =
     io_bind (call env At_log_download (Log_download d)) (\<lambda>_. io_return (created_id env))"

definition extract_info :: "env \<Rightarrow> string \<Rightarrow> ydl_opts \<Rightarrow> info io" where
  "extract_info env url opts =
     io_bind (call env At_extract_info (Extract_info url opts)) (\<lambda>_.
       (\<lambda>w. (Inr (extracted env), w\<lparr>files := files w ++ downloaded env\<rparr>)))"

definition get_settings :: "env \<Rightarrow> (string option) io" where
  "get_settings env =
     io_bind (call env At_get_settings Get_settings) (\<lambda>_. io_return (settings_error_message env))"

definition getsize :: "string \<Rightarrow> nat io" where
  "getsize filename =
     (\<lambda>w. case files w filename of
             None \<Rightarrow> (Inl (FileNotFoundError filename), w)
           | Some n \<Rightarrow> (Inr n, w))"

definition os_remove :: "string \<Rightarrow> unit io" where
  "os_remove filename =
     io_bind (emit (Os_remove filename)) (\<lambda>_.
       (\<lambda>w. case files w filename of
               None \<Rightarrow> (Inl (FileNotFoundError filename), w)
             | Some n \<Rightarrow> (Inr (), w\<lparr>files := (files w)(filename := None)\<rparr>)))"

definition read_file :: "string \<Rightarrow> unit io" where
  "read_file filename =
     io_bind (emit (Read_file filename)) (\<lambda>_.
       (\<lambda>w. case files w filename of
               None \<Rightarrow> (Inl (FileNotFoundError filename), w)
             | Some n \<Rightarrow> (Inr (), w)))"

text \<open>Kinds of call, for the statements about a run.\<close>

fun is_send :: "event \<Rightarrow> bool" where
  "is_send (Send_audio title filename) = True"
| "is_send (Send_video filename title quality) = True"
| "is_send ev = False"

fun is_sync :: "event \<Rightarrow> bool" where
  "is_sync (Sync_user uid n b) = True"
| "is_sync ev = False"

fun is_update :: "event \<Rightarrow> bool" where
  "is_update (Update_download download_id d) = True"
| "is_update ev = False"

fun is_extract :: "event \<Rightarrow> bool" where
  "is_extract (Extract_info url opts) = True"
| "is_extract ev = False"

fun is_log_download :: "event \<Rightarrow> bool" where
  "is_log_download (Log_download d) = True"
| "is_log_download ev = False"

fun shows_upsell :: "event \<Rightarrow> bool" where
  "shows_upsell (Edit_text m) = upsell_hint m"
| "shows_upsell ev = False"

section \<open>The download handler (main.py, lines 205--350)\<close>

text \<open>
  The handler returns nothing; \<open>outcome\<close> names the place where it returned:
  line 217, line 226, line 298, the end of the \<^verbatim>\<open>try\<close> block, the end of the
  \<^verbatim>\<open>except\<close> block. An exception that leaves the handler is the \<open>Inl\<close> result.
\<close>

datatype outcome = Session_expired | Banned | Size_rejected | Completed | Failed

text \<open>Python truthiness of \<^verbatim>\<open>db_user.get(key, False) if db_user else False\<close>.\<close>

definition flag :: "(db_user \<Rightarrow> bool option) \<Rightarrow> db_user option \<Rightarrow> bool" where
  "flag field u = (case u of None \<Rightarrow> False | Some d \<Rightarrow> (case field d of None \<Rightarrow> False | Some b \<Rightarrow> b))"

text \<open>\<^verbatim>\<open>db_user.get(key, 0) or 0\<close>.\<close>

definition counter :: "int option \<Rightarrow> int" where
  "counter v = (case v of None \<Rightarrow> 0 | Some n \<Rightarrow> n)"

text \<open>Line 228.\<close>

definition max_size_for :: "bool \<Rightarrow> nat" where
  "max_size_for premium = (if premium then PREMIUM_MAX_SIZE else FREE_MAX_SIZE)"

text \<open>
  Lines 273--278: the title, and the name of the local file (for audio, the name with its
  extension replaced by \<open>mp3\<close>).
\<close>

definition media_title :: "info \<Rightarrow> string" where
  "media_title nfo = (case info_title nfo of None \<Rightarrow> ''video'' | Some t \<Rightarrow> t)"

definition local_filename :: "string \<Rightarrow> info \<Rightarrow> string" where
  "local_filename quality nfo =
     (let filename = prepared_filename nfo
      in if quality = ''audio'' then rsplit_dot_head filename @ ''.mp3'' else filename)"

text \<open>Lines 269--278: the download, giving \<open>info\<close>, \<open>title\<close> and \<open>filename\<close>.\<close>

definition download :: "env \<Rightarrow> string \<Rightarrow> string \<Rightarrow> ydl_opts \<Rightarrow> (info \<times> string \<times> string) io" where
  "download env quality url opts =
     io_bind (call env At_edit_downloading (Edit_text Msg_downloading)) (\<lambda>_.
     io_bind (extract_info env url opts) (\<lambda>nfo.
     io_return (nfo, media_title nfo, local_filename quality nfo)))"

text \<open>Lines 283--298: the file is over the limit.\<close>

definition reject :: "env \<Rightarrow> bool \<Rightarrow> nat \<Rightarrow> string option \<Rightarrow> string \<Rightarrow> nat \<Rightarrow> outcome io" where
  "reject env premium max_size download_id filename file_size =
     io_bind (os_remove filename) (\<lambda>_.
     io_bind (call env At_update_too_large
                (Update_download download_id (Upd_too_large file_size max_size))) (\<lambda>_.
     io_bind (if \<not> premium
              then call env At_edit_too_large (Edit_text (Msg_too_large_free file_size max_size))
              else call env At_edit_too_large (Edit_text (Msg_too_large file_size))) (\<lambda>_.
     io_return Size_rejected)))"

text \<open>Lines 300--339: upload, bookkeeping, cleanup.\<close>

definition deliver ::
  "env \<Rightarrow> string \<Rightarrow> db_user option \<Rightarrow> string option \<Rightarrow> info \<Rightarrow> string \<Rightarrow> string \<Rightarrow> nat \<Rightarrow> outcome io" where
  "deliver env quality u download_id nfo title filename file_size =
     io_bind (call env At_edit_uploading (Edit_text Msg_uploading)) (\<lambda>_.
     io_bind (read_file filename) (\<lambda>_.
     io_bind (if quality = ''audio''
              then call env At_send (Send_audio title (title @ ''.mp3''))
              else call env At_send (Send_video (title @ ''.mp4'') title quality)) (\<lambda>_.
     io_bind (call env At_update_completed
                (Update_download download_id
                   (Upd_completed title file_size (info_duration nfo)))) (\<lambda>_.
     io_bind (case u of
                None \<Rightarrow> io_return ()
              | Some d \<Rightarrow>
                  call env At_sync_user
                    (Sync_user (user_id env)
                       (counter (total_downloads d) + 1)
                       (counter (total_data_downloaded d) + int file_size))) (\<lambda>_.
     io_bind (call env At_edit_complete (Edit_text Msg_complete)) (\<lambda>_.
     io_bind (os_remove filename) (\<lambda>_.
     io_return Completed)))))))"

text \<open>Lines 245--339: the body of the \<^verbatim>\<open>try\<close> statement.\<close>

definition try_body ::
  "env \<Rightarrow> string \<Rightarrow> string \<Rightarrow> db_user option \<Rightarrow> bool \<Rightarrow> nat \<Rightarrow> string option \<Rightarrow> outcome io" where
  "try_body env quality url u premium max_size download_id =
     io_bind (lift (configure (user_id env) quality)) (\<lambda>opts.
     io_bind (download env quality url opts) (\<lambda>(nfo, title, filename).
     io_bind (getsize filename) (\<lambda>file_size.
       if file_size > max_size
       then reject env premium max_size download_id filename file_size
       else deliver env quality u download_id nfo title filename file_size)))"

text \<open>
  Lines 341--350: the \<^verbatim>\<open>except Exception as e\<close> block. The default error text
  starts with a pictograph, written as the bytes the source file holds.
\<close>

definition default_error_message :: string where
  "default_error_message =
     [CHR 0xE2, CHR 0x80, CHR 0x9A, CHR 0xC3, CHR 0xB9, CHR 0xC3, CHR 0xA5] @ '' Download failed.''"

definition except_block :: "env \<Rightarrow> string option \<Rightarrow> exn \<Rightarrow> outcome io" where
  "except_block env download_id e =
     io_bind (emit (Logger_error e)) (\<lambda>_.
     io_bind (call env At_update_failed (Update_download download_id (Upd_failed e))) (\<lambda>_.
     io_bind (get_settings env) (\<lambda>setting.
       let error_msg = (case setting of None \<Rightarrow> default_error_message | Some m \<Rightarrow> m)
       in io_bind (call env At_edit_error (Edit_text (Msg_error error_msg e))) (\<lambda>_.
          io_return Failed))))"

definition handle_quality_selection :: "env \<Rightarrow> outcome io" where
  "handle_quality_selection env =
     io_bind (call env At_answer Answer) (\<lambda>_.
     io_bind (lift (token_quality (query_data env))) (\<lambda>quality.
       let url = (case pending_url env of None \<Rightarrow> [] | Some s \<Rightarrow> s);
           platform = (case pending_platform env of None \<Rightarrow> ''other'' | Some p \<Rightarrow> p)
       in
       if url = []
       then io_bind (call env At_edit_expired (Edit_text Msg_session_expired)) (\<lambda>_.
            io_return Session_expired)
       else
         io_bind (get_user env) (\<lambda>u.
           let premium = flag is_premium u;
               banned = flag is_banned u
           in
           if banned
           then io_bind (call env At_edit_banned (Edit_text Msg_banned)) (\<lambda>_.
                io_return Banned)
           else
             let max_size = max_size_for premium in
             io_bind (log_download env
                        \<lparr>dl_telegram_user_id = user_id env,
                         dl_url = url,
                         dl_platform = platform,
                         dl_quality = quality,
                         dl_status = ''downloading'',
                         dl_media_type = (if quality = ''audio'' then ''audio'' else ''video''),
                         dl_format = (if quality = ''audio'' then ''mp3'' else ''mp4'')\<rparr>)
               (\<lambda>download_id.
             io_bind (call env At_edit_starting (Edit_text Msg_starting)) (\<lambda>_.
             try_except
               (try_body env quality url u premium max_size download_id)
               (except_block env download_id))))))"


text \<open>
  Lines 209--210 and 246--260 together: from the callback token to the format handed to the
  extraction engine.
\<close>

definition decode :: "string \<Rightarrow> exn + format_spec" where
  "decode token =
     (case token_quality token of Inl e \<Rightarrow> Inl e | Inr quality \<Rightarrow> select_format quality)"

section \<open>Runs of the handler\<close>

text \<open>A run starts with the files already on disk and no call made yet.\<close>

abbreviation run :: "env \<Rightarrow> (string \<rightharpoonup> nat) \<Rightarrow> (exn + outcome) \<times> world" where
  "run env fs \<equiv> handle_quality_selection env \<lparr>files = fs, calls = []\<rparr>"

text \<open>
  \<open>started env quality url\<close>: the run reaches the \<^verbatim>\<open>try\<close> statement (line 244)
  with this quality and this URL. The callback is answered, the token has a quality part,
  a pending URL is stored, the profile lookup returns and does not say banned, the record
  is created and the status message is posted.
\<close>

definition started :: "env \<Rightarrow> string \<Rightarrow> string \<Rightarrow> bool" where
  "started env quality url \<longleftrightarrow>
     raises env At_answer = None \<and> token_quality (query_data env) = Inr quality
     \<and> pending_url env = Some url \<and> url \<noteq> []
     \<and> raises env At_get_user = None \<and> \<not> flag is_banned (found_user env)
     \<and> raises env At_log_download = None \<and> raises env At_edit_starting = None"

text \<open>
  \<open>measured env fs quality url n\<close>: the run reaches the size check (line 283) and the
  extracted file has \<open>n\<close> bytes. The run has started, the quality is one the handler
  knows, the progress message and the extraction return, and the local file is on disk.
\<close>

definition measured :: "env \<Rightarrow> (string \<rightharpoonup> nat) \<Rightarrow> string \<Rightarrow> string \<Rightarrow> nat \<Rightarrow> bool" where
  "measured env fs quality url n \<longleftrightarrow>
     started env quality url \<and> select_format quality \<noteq> Inl (KeyError quality)
     \<and> raises env At_edit_downloading = None \<and> raises env At_extract_info = None
     \<and> (fs ++ downloaded env) (local_filename quality (extracted env)) = Some n"

text \<open>The record a started run creates (lines 231--239).\<close>

definition the_download_data :: "env \<Rightarrow> string \<Rightarrow> string \<Rightarrow> download_data" where
  "the_download_data env quality url =
     \<lparr>dl_telegram_user_id = user_id env,
      dl_url = url,
      dl_platform = (case pending_platform env of None \<Rightarrow> ''other'' | Some p \<Rightarrow> p),
      dl_quality = quality,
      dl_status = ''downloading'',
      dl_media_type = (if quality = ''audio'' then ''audio'' else ''video''),
      dl_format = (if quality = ''audio'' then ''mp3'' else ''mp4'')\<rparr>"

text \<open>The send call of lines 306--318.\<close>

definition send_event :: "string \<Rightarrow> string \<Rightarrow> event" where
  "send_event quality title =
     (if quality = ''audio'' then Send_audio title (title @ ''.mp3'')
      else Send_video (title @ ''.mp4'') title quality)"

section \<open>Concrete runs\<close>

text \<open>
  A Free-tier user with a profile selects 720p for a YouTube link; extraction writes a
  300 MiB file; every collaborator call returns.
\<close>

definition env_ok :: env where
  "env_ok =
     \<lparr>query_data = ''quality:720p:https://youtube.com/watch?v=X'',
      pending_url = Some ''https://youtube.com/watch?v=X'',
      pending_platform = Some ''youtube'',
      user_id = ''42'',
      raises = (\<lambda>s. None),
      found_user = Some \<lparr>is_premium = Some False, is_banned = None,
                          total_downloads = Some 3, total_data_downloaded = None\<rparr>,
      created_id = Some ''d1'',
      extracted = \<lparr>info_title = Some ''Clip'', info_duration = Some 60,
                     prepared_filename = ''/tmp/42_Clip.mp4''\<rparr>,
      downloaded = [''/tmp/42_Clip.mp4'' \<mapsto> 314572800],
      settings_error_message = None\<rparr>"

text \<open>The same run, but the upload to the chat raises.\<close>

definition env_send_fails :: env where
  "env_send_fails =
     env_ok\<lparr>raises := (\<lambda>s. if s = At_send then Some (Error ''Timed out'') else None)\<rparr>"

text \<open>The same run, but the last status message (line 336) raises.\<close>

definition env_late_failure :: env where
  "env_late_failure =
     env_ok\<lparr>raises := (\<lambda>s. if s = At_edit_complete then Some (Error ''Timed out'') else None)\<rparr>"

text \<open>The same run, but the update of the record to \<open>completed\<close> (line 321) raises.\<close>

definition env_update_fails :: env where
  "env_update_fails =
     env_ok\<lparr>raises :=
       (\<lambda>s. if s = At_update_completed then Some (Error ''Timed out'') else None)\<rparr>"

text \<open>The same run, but the bookkeeping lookup finds no profile.\<close>

definition env_no_profile :: env where
  "env_no_profile = env_ok\<lparr>found_user := None\<rparr>"

text \<open>The same request from a banned user.\<close>

definition env_banned :: env where
  "env_banned =
     env_ok\<lparr>found_user := Some \<lparr>is_premium = Some False, is_banned = Some True,
                                   total_downloads = Some 3, total_data_downloaded = None\<rparr>\<rparr>"

text \<open>The same click, with nothing stored for the user.\<close>

definition env_expired :: env where
  "env_expired = env_ok\<lparr>pending_url := None, pending_platform := None\<rparr>"

text \<open>Extraction writes a file of 2 GiB, of exactly 1 GiB, of 1 GiB and one byte.\<close>

definition env_oversize :: env where
  "env_oversize = env_ok\<lparr>downloaded := [''/tmp/42_Clip.mp4'' \<mapsto> 2147483648]\<rparr>"

text \<open>The 2 GiB run, but the update of the record (line 286) raises.\<close>

definition env_oversize_update_fails :: env where
  "env_oversize_update_fails =
     env_oversize\<lparr>raises :=
       (\<lambda>s. if s = At_update_too_large then Some (Error ''Timed out'') else None)\<rparr>"

definition env_at_limit :: env where
  "env_at_limit = env_ok\<lparr>downloaded := [''/tmp/42_Clip.mp4'' \<mapsto> 1073741824]\<rparr>"

definition env_over_limit :: env where
  "env_over_limit = env_ok\<lparr>downloaded := [''/tmp/42_Clip.mp4'' \<mapsto> 1073741825]\<rparr>"

text \<open>
  A user without a profile selects the audio option; extraction leaves an mp3 of 5 MB.
\<close>

definition env_new_user :: env where
  "env_new_user =
     \<lparr>query_data = ''quality:audio:https://soundcloud.com/a/b'',
      pending_url = Some ''https://soundcloud.com/a/b'',
      pending_platform = Some ''soundcloud'',
      user_id = ''7'',
      raises = (\<lambda>s. None),
      found_user = None,
      created_id = Some ''d2'',
      extracted = \<lparr>info_title = Some ''Song'', info_duration = None,
                     prepared_filename = ''/tmp/7_Song.webm''\<rparr>,
      downloaded = [''/tmp/7_Song.mp3'' \<mapsto> 5000000],
      settings_error_message = None\<rparr>"

section \<open>Platform detection: proofs\<close>

lemma match_here_alternatives:
  "match_here r u \<longleftrightarrow>
     (\<exists>s \<in> set (alternatives r).
        prefix (map ignorecase_fold (codes s)) (map ignorecase_fold u))"
  by (induction r) auto

lemma re_search_alternatives:
  "re_search r u \<longleftrightarrow>
     (\<exists>s \<in> set (alternatives r).
        sublist (map ignorecase_fold (codes s)) (map ignorecase_fold u))"
proof (induction u)
  case Nil
  show ?case by (simp add: match_here_alternatives)
next
  case (Cons c cs)
  have "sublist xs (map ignorecase_fold (c # cs)) \<longleftrightarrow>
        prefix xs (map ignorecase_fold (c # cs)) \<or> sublist xs (map ignorecase_fold cs)" for xs
    by (simp add: sublist_Cons_right)
  with Cons show ?case
    by (auto simp: match_here_alternatives)
qed

lemma re_search_occurs: "re_search r u = occurs_ignoring_case r u"
  by (simp add: re_search_alternatives occurs_ignoring_case_def list_ex_iff)

lemma detect_in_find:
  "detect_in tbl url =
     (case find (\<lambda>(platform, pattern). occurs_ignoring_case pattern url) tbl of
        None \<Rightarrow> ''other''
      | Some (platform, pattern) \<Rightarrow> platform)"
  by (induction tbl url rule: detect_in.induct) (simp_all add: re_search_occurs)

lemma fold_fold: "ignorecase_fold (ignorecase_fold c) = ignorecase_fold c"
  by (simp add: ignorecase_fold_def)

lemma fold_upper: "ignorecase_fold (ascii_upper c) = ignorecase_fold c"
  by (auto simp: ignorecase_fold_def ascii_upper_def)

lemma map_fold_fold: "map ignorecase_fold (map ignorecase_fold u) = map ignorecase_fold u"
  by (induction u) (simp_all add: fold_fold)

lemma map_fold_upper: "map ignorecase_fold (map ascii_upper u) = map ignorecase_fold u"
  by (induction u) (simp_all add: fold_upper)

lemma occurs_fold:
  "occurs_ignoring_case r (map ignorecase_fold u) = occurs_ignoring_case r u"
  unfolding occurs_ignoring_case_def map_fold_fold ..

lemma occurs_upper: "occurs_ignoring_case r (map ascii_upper u) = occurs_ignoring_case r u"
  unfolding occurs_ignoring_case_def map_fold_upper ..

lemma detect_in_fold: "detect_in tbl (map ignorecase_fold u) = detect_in tbl u"
  unfolding detect_in_find occurs_fold ..

lemma detect_in_upper: "detect_in tbl (map ascii_upper u) = detect_in tbl u"
  unfolding detect_in_find occurs_upper ..

lemma detect_in_range: "detect_in tbl u \<in> insert ''other'' (set (map fst tbl))"
  by (induction tbl u rule: detect_in.induct) auto

text \<open>
  Claim C9. For every URL, \<open>detect_platform\<close> returns the tag of the first entry of the
  ordered platform table one of whose literal alternatives occurs in the URL ignoring case,
  and \<open>other\<close> when no entry matches (this is \<open>first_match\<close>); replacing the
  characters of the URL by their folded forms, or its small ASCII letters by capitals,
  does not change the answer; and the function is total: its value is always a tag of the
  table or \<open>other\<close>.
\<close>

theorem detect_platform_first_match:
  "detect_platform url = first_match url
   \<and> detect_platform (map ignorecase_fold url) = detect_platform url
   \<and> detect_platform (map ascii_upper url) = detect_platform url
   \<and> detect_platform url \<in> insert ''other'' (set (map fst PLATFORM_PATTERNS))"
  unfolding detect_platform_def first_match_def
  using detect_in_find [of PLATFORM_PATTERNS url] detect_in_fold [of PLATFORM_PATTERNS url]
    detect_in_upper [of PLATFORM_PATTERNS url] detect_in_range [of PLATFORM_PATTERNS url]
  by simp

lemmas detect_simps =
  detect_platform_def PLATFORM_PATTERNS_def codes_def ignorecase_fold_def

theorem detect_platform_first_match_witness:
  "first_match (codes ''https://youtu.be/abc'') = ''youtube''
   \<and> first_match (codes ''https://example.com/x'') = ''other''
   \<and> first_match (codes ''HTTPS://WWW.TikTok.COM/@u/video/1'') = ''tiktok''
   \<and> first_match (codes ''https://www.ti'' @ [0x212A] @ codes ''tok.com/@u'') = ''tiktok''
   \<and> first_match (codes ''https://faceboo'' @ [0x212A] @ codes ''.com/v'') = ''facebook''
   \<and> first_match (codes ''https://www.'' @ [0x130] @ codes ''n'' @ [0x17F]
          @ codes ''tagram.com/p'') = ''instagram''"
proof -
  have a: "detect_platform (codes ''https://youtu.be/abc'') = ''youtube''"
    by (simp add: detect_simps)
  have b: "detect_platform (codes ''https://example.com/x'') = ''other''"
    by (simp add: detect_simps)
  have c: "detect_platform (codes ''HTTPS://WWW.TikTok.COM/@u/video/1'') = ''tiktok''"
    by (simp add: detect_simps)
  have d: "detect_platform (codes ''https://www.ti'' @ [0x212A] @ codes ''tok.com/@u'')
            = ''tiktok''"
    by (simp add: detect_simps)
  have e: "detect_platform (codes ''https://faceboo'' @ [0x212A] @ codes ''.com/v'')
            = ''facebook''"
    by (simp add: detect_simps)
  have f: "detect_platform (codes ''https://www.'' @ [0x130] @ codes ''n'' @ [0x17F]
          @ codes ''tagram.com/p'') = ''instagram''"
    by (simp add: detect_simps)
  show ?thesis
    using detect_platform_first_match [of "codes ''https://youtu.be/abc''"]
      detect_platform_first_match [of "codes ''https://example.com/x''"]
      detect_platform_first_match [of "codes ''HTTPS://WWW.TikTok.COM/@u/video/1''"]
      detect_platform_first_match [of "codes ''https://www.ti'' @ [0x212A] @ codes ''tok.com/@u''"]
      detect_platform_first_match [of "codes ''https://faceboo'' @ [0x212A] @ codes ''.com/v''"]
      detect_platform_first_match [of "codes ''https://www.'' @ [0x130] @ codes ''n'' @ [0x17F]
          @ codes ''tagram.com/p''"]
      a b c d e f
    by simp
qed

section \<open>The download handler: lemmas\<close>

lemmas io_simps =
  io_return_def io_raise_def io_bind_def try_except_def lift_def emit_def call_def Let_def

lemma handle_started:
  assumes "started env quality url"
  shows "handle_quality_selection env w =
     try_except
       (try_body env quality url (found_user env) (flag is_premium (found_user env))
          (max_size_for (flag is_premium (found_user env))) (created_id env))
       (except_block env (created_id env))
       (w\<lparr>calls := calls w @ [Answer, Get_user (user_id env),
            Log_download (the_download_data env quality url), Edit_text Msg_starting]\<rparr>)"
  using assms
  by (simp add: started_def handle_quality_selection_def io_simps get_user_def
      log_download_def the_download_data_def)

lemma select_format_ok:
  assumes "select_format quality \<noteq> Inl (KeyError quality)"
  shows "\<exists>f. select_format quality = Inr f"
  using assms by (auto simp: select_format_def split: option.splits if_splits)

lemma configure_ok:
  assumes "select_format quality \<noteq> Inl (KeyError quality)"
  shows "\<exists>opts. configure uid quality = Inr opts"
  using select_format_ok [OF assms] by (auto simp: configure_def)

lemma try_body_measured:
  assumes "configure (user_id env) quality = Inr opts"
    and "raises env At_edit_downloading = None" and "raises env At_extract_info = None"
    and "(files w ++ downloaded env) (local_filename quality (extracted env)) = Some n"
  shows "try_body env quality url u premium max_size download_id w =
     (if n > max_size
      then reject env premium max_size download_id (local_filename quality (extracted env)) n
      else deliver env quality u download_id (extracted env) (media_title (extracted env))
             (local_filename quality (extracted env)) n)
       (w\<lparr>calls := calls w @ [Edit_text Msg_downloading, Extract_info url opts],
           files := files w ++ downloaded env\<rparr>)"
  using assms
  by (simp add: try_body_def download_def extract_info_def getsize_def io_simps)


lemmas stage_simps =
  reject_def deliver_def except_block_def os_remove_def read_file_def get_settings_def

lemma handle_measured:
  assumes "measured env fs quality url n"
  shows "\<exists>opts. configure (user_id env) quality = Inr opts \<and>
     run env fs =
     try_except
       (if n > max_size_for (flag is_premium (found_user env))
        then reject env (flag is_premium (found_user env))
               (max_size_for (flag is_premium (found_user env))) (created_id env)
               (local_filename quality (extracted env)) n
        else deliver env quality (found_user env) (created_id env) (extracted env)
               (media_title (extracted env)) (local_filename quality (extracted env)) n)
       (except_block env (created_id env))
       \<lparr>files = fs ++ downloaded env,
        calls = [Answer, Get_user (user_id env),
            Log_download (the_download_data env quality url), Edit_text Msg_starting,
            Edit_text Msg_downloading, Extract_info url opts]\<rparr>"
proof -
  from assms have s: "started env quality url"
    and q: "select_format quality \<noteq> Inl (KeyError quality)"
    and d: "raises env At_edit_downloading = None" and x: "raises env At_extract_info = None"
    and f: "(fs ++ downloaded env) (local_filename quality (extracted env)) = Some n"
    by (simp_all add: measured_def)
  from configure_ok [OF q] obtain opts where c: "configure (user_id env) quality = Inr opts"
    by blast
  show ?thesis
    using f by (auto simp: handle_started [OF s] try_except_def
        try_body_measured [where opts = opts and n = n, OF c d x] c)
qed

lemmas handler_simps =
  handle_quality_selection_def try_body_def download_def extract_info_def getsize_def
  get_user_def log_download_def stage_simps io_simps


lemma try_except_cases:
  assumes "try_except m h w = (r, w')"
  obtains (returned) x where "m w = (Inr x, w')" "r = Inr x"
  | (caught) e w1 where "m w = (Inl e, w1)" "h e w1 = (r, w')"
  using assms by (auto simp: try_except_def split: prod.splits sum.splits)

lemma split_on_nonempty: "split_on sep s \<noteq> []"
  by (induction s) (auto split: list.splits)

lemma split_on_append:
  "sep \<notin> set a \<Longrightarrow> split_on sep (a @ sep # b) = a # split_on sep b"
  by (induction a) (auto split: list.splits)

lemma token_quality_callback_token:
  assumes "CHR '':'' \<notin> set quality"
  shows "token_quality (callback_token quality url) = Inr quality"
proof -
  have "split_on CHR '':'' (callback_token quality url)
        = ''quality'' # quality # split_on CHR '':'' (take 50 url)"
    using split_on_append [of "CHR '':''" "''quality''" "quality @ '':'' @ take 50 url"]
      split_on_append [of "CHR '':''" quality "take 50 url"] assms
    by (simp add: callback_token_def)
  then show ?thesis
    by (simp add: token_quality_def py_index_def)
qed

lemma token_quality_prefix:
  assumes "prefix ''quality:'' data"
  shows "\<exists>quality. token_quality data = Inr quality"
proof -
  from assms obtain rest where d: "data = ''quality'' @ CHR '':'' # rest"
    by (auto simp: prefix_def)
  have "split_on CHR '':'' data = ''quality'' # split_on CHR '':'' rest"
    unfolding d by (rule split_on_append) simp
  moreover obtain x xs where "split_on CHR '':'' rest = x # xs"
    using split_on_nonempty [of "CHR '':''" rest] by (cases "split_on CHR '':'' rest") auto
  ultimately show ?thesis
    by (simp add: token_quality_def py_index_def)
qed

lemma banned_calls:
  assumes "flag is_banned (found_user env)"
    and "run env fs = (r, w')"
  shows "\<not> list_ex is_extract (calls w')" and "\<not> list_ex is_log_download (calls w')"
    and "files w' = fs"
  using assms
  by (auto simp: handle_quality_selection_def get_user_def io_simps
      split: option.splits if_splits sum.splits prod.splits)

lemma banned_outcome:
  assumes "flag is_banned (found_user env)"
    and "run env fs = (r, w')"
    and "raises env At_answer = None" and "token_quality (query_data env) = Inr quality"
    and "pending_url env = Some url" and "url \<noteq> []"
    and "raises env At_get_user = None" and "raises env At_edit_banned = None"
  shows "r = Inr Banned" and "calls w' = [Answer, Get_user (user_id env), Edit_text Msg_banned]"
  using assms
  by (auto simp: handle_quality_selection_def get_user_def io_simps
      split: option.splits if_splits sum.splits prod.splits)

lemma expired_calls:
  assumes "pending_url env = None"
    and "run env fs = (r, w')"
  shows "\<not> list_ex is_extract (calls w')" and "\<not> list_ex is_log_download (calls w')"
    and "raises env At_answer = None \<Longrightarrow> token_quality (query_data env) = Inr quality \<Longrightarrow>
         raises env At_edit_expired = None \<Longrightarrow>
         r = Inr Session_expired \<and> calls w' = [Answer, Edit_text Msg_session_expired]"
  using assms
  by (auto simp: handle_quality_selection_def get_user_def io_simps
      split: option.splits if_splits sum.splits prod.splits)

lemma not_started_calls:
  assumes "\<forall>quality url. \<not> started env quality url"
    and "run env fs = (r, w')"
  shows "\<not> list_ex is_sync (calls w')"
  using assms
  by (auto simp: handle_quality_selection_def get_user_def log_download_def io_simps started_def
      split: option.splits if_splits sum.splits prod.splits)

lemma try_body_no_sync:
  assumes "try_body env quality url None premium max_size download_id w = (r, w')"
  shows "filter is_sync (calls w') = filter is_sync (calls w)"
  using assms
  by (auto simp: try_body_def download_def extract_info_def getsize_def stage_simps io_simps
      split: option.splits if_splits sum.splits prod.splits)

lemma except_block_no_sync:
  assumes "except_block env download_id e w = (r, w')"
  shows "filter is_sync (calls w') = filter is_sync (calls w)"
  using assms
  by (auto simp: stage_simps io_simps split: option.splits if_splits)

lemma try_body_no_ban:
  assumes "try_body env quality url u premium max_size download_id w = (r, w')"
  shows "filter (\<lambda>ev. ev = Edit_text Msg_banned) (calls w')
         = filter (\<lambda>ev. ev = Edit_text Msg_banned) (calls w)"
  using assms
  by (auto simp: try_body_def download_def extract_info_def getsize_def stage_simps io_simps
      split: option.splits if_splits sum.splits prod.splits)

lemma except_block_no_ban:
  assumes "except_block env download_id e w = (r, w')"
  shows "filter (\<lambda>ev. ev = Edit_text Msg_banned) (calls w')
         = filter (\<lambda>ev. ev = Edit_text Msg_banned) (calls w)"
  using assms
  by (auto simp: stage_simps io_simps split: option.splits if_splits)

lemma never_sync_without_profile:
  assumes u: "found_user env = None"
    and run: "run env fs = (r, w')"
  shows "\<not> list_ex is_sync (calls w')"
proof (cases "\<exists>quality url. started env quality url")
  case False
  then show ?thesis using not_started_calls run by blast
next
  case True
  then obtain quality url where s: "started env quality url" by blast
  let ?w1 = "\<lparr>files = fs, calls = [Answer, Get_user (user_id env),
            Log_download (the_download_data env quality url), Edit_text Msg_starting]\<rparr>"
  from run have t: "try_except
       (try_body env quality url None False (max_size_for False) (created_id env))
       (except_block env (created_id env)) ?w1 = (r, w')"
    by (simp add: handle_started [OF s] u flag_def)
  have "filter is_sync (calls w') = []"
    using t
  proof (cases rule: try_except_cases)
    case (returned x)
    then show ?thesis using try_body_no_sync [OF returned(1)] by simp
  next
    case (caught e w1)
    then show ?thesis
      using try_body_no_sync [OF caught(1)] except_block_no_sync [OF caught(2)] by simp
  qed
  then show ?thesis
    by (simp add: list_ex_iff filter_empty_conv)
qed

lemma never_banned_without_profile:
  assumes "found_user env = None"
    and "run env fs = (r, w')"
  shows "Edit_text Msg_banned \<notin> set (calls w')"
proof (cases "\<exists>quality url. started env quality url")
  case False
  then show ?thesis using assms
    by (auto simp: handle_quality_selection_def get_user_def log_download_def io_simps
        started_def flag_def
        split: option.splits if_splits sum.splits prod.splits)
next
  case True
  then obtain quality url where s: "started env quality url" by blast
  let ?w1 = "\<lparr>files = fs, calls = [Answer, Get_user (user_id env),
            Log_download (the_download_data env quality url), Edit_text Msg_starting]\<rparr>"
  from assms(2) have t: "try_except
       (try_body env quality url None False (max_size_for False) (created_id env))
       (except_block env (created_id env)) ?w1 = (r, w')"
    by (simp add: handle_started [OF s] assms(1) flag_def)
  have "filter (\<lambda>ev. ev = Edit_text Msg_banned) (calls w') = []"
    using t
  proof (cases rule: try_except_cases)
    case (returned x)
    then show ?thesis using try_body_no_ban [OF returned(1)] by simp
  next
    case (caught e w1)
    then show ?thesis
      using try_body_no_ban [OF caught(1)] except_block_no_ban [OF caught(2)] by simp
  qed
  then show ?thesis
    by (auto simp: filter_empty_conv)
qed

lemma handle_sized:
  assumes m: "measured env fs quality url n"
    and run: "run env fs = (r, w')"
  shows "\<exists>opts. try_except
       (if n > max_size_for (flag is_premium (found_user env))
        then reject env (flag is_premium (found_user env))
               (max_size_for (flag is_premium (found_user env))) (created_id env)
               (local_filename quality (extracted env)) n
        else deliver env quality (found_user env) (created_id env) (extracted env)
               (media_title (extracted env)) (local_filename quality (extracted env)) n)
       (except_block env (created_id env))
       \<lparr>files = fs ++ downloaded env,
        calls = [Answer, Get_user (user_id env),
            Log_download (the_download_data env quality url), Edit_text Msg_starting,
            Edit_text Msg_downloading, Extract_info url opts]\<rparr> = (r, w')"
  using handle_measured [OF m] run by auto

lemma on_disk:
  assumes "measured env fs quality url n"
  shows "(fs ++ downloaded env) (local_filename quality (extracted env)) = Some n"
  using assms by (simp add: measured_def)

lemma reject_facts:
  assumes m: "measured env fs quality url n"
    and big: "n > max_size_for (flag is_premium (found_user env))"
    and run: "run env fs = (r, w')"
  shows "files w' (local_filename quality (extracted env)) = None"
    and "Os_remove (local_filename quality (extracted env)) \<in> set (calls w')"
    and "\<not> list_ex is_send (calls w')"
    and "Update_download (created_id env)
           (Upd_too_large n (max_size_for (flag is_premium (found_user env)))) \<in> set (calls w')"
    and "\<not> list_ex is_sync (calls w')"
    and "raises env At_update_too_large = None \<Longrightarrow>
           list_ex shows_upsell (calls w') \<longleftrightarrow> \<not> flag is_premium (found_user env)"
    and "raises env At_update_too_large = None \<Longrightarrow> raises env At_edit_too_large = None \<Longrightarrow>
           r = Inr Size_rejected \<and>
           filter is_update (calls w') =
             [Update_download (created_id env)
                (Upd_too_large n (max_size_for (flag is_premium (found_user env))))] \<and>
           last (calls w') =
             Edit_text (if flag is_premium (found_user env) then Msg_too_large n
                        else Msg_too_large_free n (max_size_for (flag is_premium (found_user env))))"
proof -
  from handle_sized [OF m run] big obtain opts where
    h: "try_except
       (reject env (flag is_premium (found_user env))
               (max_size_for (flag is_premium (found_user env))) (created_id env)
               (local_filename quality (extracted env)) n)
       (except_block env (created_id env))
       \<lparr>files = fs ++ downloaded env,
        calls = [Answer, Get_user (user_id env),
            Log_download (the_download_data env quality url), Edit_text Msg_starting,
            Edit_text Msg_downloading, Extract_info url opts]\<rparr> = (r, w')"
    by auto
  note f = on_disk [OF m]
  show "files w' (local_filename quality (extracted env)) = None"
    using h f by (auto simp: stage_simps io_simps split: option.splits if_splits)
  show "Os_remove (local_filename quality (extracted env)) \<in> set (calls w')"
    using h f by (auto simp: stage_simps io_simps split: option.splits if_splits)
  show "\<not> list_ex is_send (calls w')"
    using h f by (auto simp: stage_simps io_simps split: option.splits if_splits)
  show "Update_download (created_id env)
           (Upd_too_large n (max_size_for (flag is_premium (found_user env)))) \<in> set (calls w')"
    using h f by (auto simp: stage_simps io_simps split: option.splits if_splits)
  show "\<not> list_ex is_sync (calls w')"
    using h f by (auto simp: stage_simps io_simps split: option.splits if_splits)
  show "list_ex shows_upsell (calls w') \<longleftrightarrow> \<not> flag is_premium (found_user env)"
    if "raises env At_update_too_large = None"
    using h f that by (auto simp: stage_simps io_simps split: option.splits if_splits)
  show "r = Inr Size_rejected \<and>
           filter is_update (calls w') =
             [Update_download (created_id env)
                (Upd_too_large n (max_size_for (flag is_premium (found_user env))))] \<and>
           last (calls w') =
             Edit_text (if flag is_premium (found_user env) then Msg_too_large n
                        else Msg_too_large_free n (max_size_for (flag is_premium (found_user env))))"
    if "raises env At_update_too_large = None" "raises env At_edit_too_large = None"
    using h f that by (auto simp: stage_simps io_simps split: option.splits if_splits)
qed

lemma deliver_returns:
  assumes "files w filename = Some n"
    and "raises env At_edit_uploading = None" and "raises env At_send = None"
    and "raises env At_update_completed = None" and "raises env At_sync_user = None"
    and "raises env At_edit_complete = None"
  shows "deliver env quality (Some d) download_id nfo title filename n w =
     (Inr Completed,
      w\<lparr>calls := calls w @
           [Edit_text Msg_uploading, Read_file filename, send_event quality title,
            Update_download download_id (Upd_completed title n (info_duration nfo)),
            Sync_user (user_id env) (counter (total_downloads d) + 1)
              (counter (total_data_downloaded d) + int n),
            Edit_text Msg_complete, Os_remove filename],
         files := (files w)(filename := None)\<rparr>)"
  using assms
  by (simp add: stage_simps io_simps send_event_def)

lemma deliver_facts:
  assumes m: "measured env fs quality url n"
    and small: "n \<le> max_size_for (flag is_premium (found_user env))"
    and up: "raises env At_edit_uploading = None" and snd: "raises env At_send = None"
    and u: "found_user env = Some d"
    and upd: "raises env At_update_completed = None" and syn: "raises env At_sync_user = None"
    and fin: "raises env At_edit_complete = None"
    and run: "run env fs = (r, w')"
  shows "\<exists>opts. r = Inr Completed \<and>
     w' = \<lparr>files = (fs ++ downloaded env)(local_filename quality (extracted env) := None),
           calls = [Answer, Get_user (user_id env),
             Log_download (the_download_data env quality url), Edit_text Msg_starting,
             Edit_text Msg_downloading, Extract_info url opts,
             Edit_text Msg_uploading, Read_file (local_filename quality (extracted env)),
             send_event quality (media_title (extracted env)),
             Update_download (created_id env)
               (Upd_completed (media_title (extracted env)) n (info_duration (extracted env))),
             Sync_user (user_id env) (counter (total_downloads d) + 1)
               (counter (total_data_downloaded d) + int n),
             Edit_text Msg_complete, Os_remove (local_filename quality (extracted env))]\<rparr>"
proof -
  from handle_sized [OF m run] small obtain opts where
    h: "try_except
       (deliver env quality (found_user env) (created_id env) (extracted env)
               (media_title (extracted env)) (local_filename quality (extracted env)) n)
       (except_block env (created_id env))
       \<lparr>files = fs ++ downloaded env,
        calls = [Answer, Get_user (user_id env),
            Log_download (the_download_data env quality url), Edit_text Msg_starting,
            Edit_text Msg_downloading, Extract_info url opts]\<rparr> = (r, w')"
    by auto
  note f = on_disk [OF m]
  have d: "deliver env quality (found_user env) (created_id env) (extracted env)
               (media_title (extracted env)) (local_filename quality (extracted env)) n
       \<lparr>files = fs ++ downloaded env,
        calls = [Answer, Get_user (user_id env),
            Log_download (the_download_data env quality url), Edit_text Msg_starting,
            Edit_text Msg_downloading, Extract_info url opts]\<rparr>
     = (Inr Completed,
        \<lparr>files = (fs ++ downloaded env)(local_filename quality (extracted env) := None),
           calls = [Answer, Get_user (user_id env),
             Log_download (the_download_data env quality url), Edit_text Msg_starting,
             Edit_text Msg_downloading, Extract_info url opts,
             Edit_text Msg_uploading, Read_file (local_filename quality (extracted env)),
             send_event quality (media_title (extracted env)),
             Update_download (created_id env)
               (Upd_completed (media_title (extracted env)) n (info_duration (extracted env))),
             Sync_user (user_id env) (counter (total_downloads d) + 1)
               (counter (total_data_downloaded d) + int n),
             Edit_text Msg_complete, Os_remove (local_filename quality (extracted env))]\<rparr>)"
    unfolding u
    by (subst deliver_returns [where n = n]) (use f up snd upd syn fin in simp_all)
  have "r = Inr Completed \<and>
     w' = \<lparr>files = (fs ++ downloaded env)(local_filename quality (extracted env) := None),
           calls = [Answer, Get_user (user_id env),
             Log_download (the_download_data env quality url), Edit_text Msg_starting,
             Edit_text Msg_downloading, Extract_info url opts,
             Edit_text Msg_uploading, Read_file (local_filename quality (extracted env)),
             send_event quality (media_title (extracted env)),
             Update_download (created_id env)
               (Upd_completed (media_title (extracted env)) n (info_duration (extracted env))),
             Sync_user (user_id env) (counter (total_downloads d) + 1)
               (counter (total_data_downloaded d) + int n),
             Edit_text Msg_complete, Os_remove (local_filename quality (extracted env))]\<rparr>"
    using h unfolding try_except_def d by simp
  then show ?thesis by blast
qed

lemma size_check:
  assumes m: "measured env fs quality url n"
    and run: "run env fs = (r, w')"
  shows "Edit_text Msg_uploading \<in> set (calls w')
           \<longleftrightarrow> n \<le> max_size_for (flag is_premium (found_user env))"
    and "Update_download (created_id env)
           (Upd_too_large n (max_size_for (flag is_premium (found_user env)))) \<in> set (calls w')
           \<longleftrightarrow> n > max_size_for (flag is_premium (found_user env))"
proof -
  from handle_sized [OF m run] obtain opts where
    h: "try_except
       (if n > max_size_for (flag is_premium (found_user env))
        then reject env (flag is_premium (found_user env))
               (max_size_for (flag is_premium (found_user env))) (created_id env)
               (local_filename quality (extracted env)) n
        else deliver env quality (found_user env) (created_id env) (extracted env)
               (media_title (extracted env)) (local_filename quality (extracted env)) n)
       (except_block env (created_id env))
       \<lparr>files = fs ++ downloaded env,
        calls = [Answer, Get_user (user_id env),
            Log_download (the_download_data env quality url), Edit_text Msg_starting,
            Edit_text Msg_downloading, Extract_info url opts]\<rparr> = (r, w')"
    by auto
  note f = on_disk [OF m]
  show "Edit_text Msg_uploading \<in> set (calls w')
           \<longleftrightarrow> n \<le> max_size_for (flag is_premium (found_user env))"
    using h f by (auto simp: stage_simps io_simps split: option.splits if_splits)
  show "Update_download (created_id env)
           (Upd_too_large n (max_size_for (flag is_premium (found_user env)))) \<in> set (calls w')
           \<longleftrightarrow> n > max_size_for (flag is_premium (found_user env))"
    using h f by (auto simp: stage_simps io_simps split: option.splits if_splits)
qed

lemmas eval_simps =
  handler_simps token_quality_def py_index_def configure_def select_format_def heights_def
  flag_def max_size_for_def FREE_MAX_SIZE_def PREMIUM_MAX_SIZE_def local_filename_def
  media_title_def counter_def rsplit_dot_head_def

lemma run_pair: "run env fs = (fst (run env fs), snd (run env fs))"
  by simp

section \<open>The claims about the download handler\<close>

text \<open>
  Claim C1, amended. In every run that reaches the size check with a file of \<open>n\<close> bytes on disk,
  \<open>n\<close> strictly above the limit of the user's tier: the local file is removed and is no
  longer on disk at the end; no send-audio or send-video call is made; the record is
  updated with status \<open>failed\<close> and the message built from the file size and the limit;
  no stats call is made; and, when that record update returns, a text with the upsell
  hint is shown exactly when the user is not premium. When the status message returns
  too, the run ends at line 298, the size update is the only update of the record and
  the size text is the last call.
\<close>

theorem oversize_file_rejected:
  assumes "measured env fs quality url n"
    and "n > max_size_for (flag is_premium (found_user env))"
    and "run env fs = (r, w')"
  shows "files w' (local_filename quality (extracted env)) = None
    \<and> Os_remove (local_filename quality (extracted env)) \<in> set (calls w')
    \<and> \<not> list_ex is_send (calls w')
    \<and> Update_download (created_id env)
          (Upd_too_large n (max_size_for (flag is_premium (found_user env)))) \<in> set (calls w')
    \<and> upd_status (Upd_too_large n (max_size_for (flag is_premium (found_user env)))) = ''failed''
    \<and> \<not> list_ex is_sync (calls w')
    \<and> (raises env At_update_too_large = None \<longrightarrow>
          (list_ex shows_upsell (calls w') \<longleftrightarrow> \<not> flag is_premium (found_user env)))
    \<and> (raises env At_update_too_large = None \<and> raises env At_edit_too_large = None \<longrightarrow>
          r = Inr Size_rejected \<and>
          filter is_update (calls w') =
            [Update_download (created_id env)
               (Upd_too_large n (max_size_for (flag is_premium (found_user env))))] \<and>
          last (calls w') =
            Edit_text (if flag is_premium (found_user env) then Msg_too_large n
                       else Msg_too_large_free n (max_size_for (flag is_premium (found_user env)))))"
  using reject_facts [OF assms] by simp

theorem oversize_file_rejected_witness:
  "measured env_oversize Map.empty ''720p'' ''https://youtube.com/watch?v=X'' 2147483648
   \<and> 2147483648 > max_size_for (flag is_premium (found_user env_oversize))
   \<and> fst (run env_oversize Map.empty) = Inr Size_rejected
   \<and> files (snd (run env_oversize Map.empty)) ''/tmp/42_Clip.mp4'' = None
   \<and> \<not> list_ex is_send (calls (snd (run env_oversize Map.empty)))
   \<and> \<not> list_ex is_sync (calls (snd (run env_oversize Map.empty)))
   \<and> list_ex shows_upsell (calls (snd (run env_oversize Map.empty)))
   \<and> last (calls (snd (run env_oversize Map.empty)))
       = Edit_text (Msg_too_large_free 2147483648 1073741824)"
proof -
  have m: "measured env_oversize Map.empty ''720p'' ''https://youtube.com/watch?v=X'' 2147483648"
    by (simp add: measured_def started_def env_oversize_def env_ok_def eval_simps)
  have b: "2147483648 > max_size_for (flag is_premium (found_user env_oversize))"
    by (simp add: env_oversize_def env_ok_def eval_simps)
  have e: "raises env_oversize At_update_too_large = None"
    "raises env_oversize At_edit_too_large = None"
    "\<not> flag is_premium (found_user env_oversize)"
    "max_size_for (flag is_premium (found_user env_oversize)) = 1073741824"
    "local_filename ''720p'' (extracted env_oversize) = ''/tmp/42_Clip.mp4''"
    by (simp_all add: env_oversize_def env_ok_def eval_simps)
  show ?thesis
    using oversize_file_rejected [OF m b run_pair [of env_oversize Map.empty]] m b e by simp
qed

text \<open>
  Claim C1 as stated fails when the record update of line 286 raises: the user is not
  premium and the file is over the limit, yet no text with the upsell hint is shown; the
  \<^verbatim>\<open>except\<close> block updates the record a second time, with the text of the exception,
  and shows the generic error.
\<close>

theorem oversize_update_fails_counterexample:
  "measured env_oversize_update_fails Map.empty ''720p'' ''https://youtube.com/watch?v=X''
     2147483648
   \<and> 2147483648 > max_size_for (flag is_premium (found_user env_oversize_update_fails))
   \<and> \<not> flag is_premium (found_user env_oversize_update_fails)
   \<and> \<not> list_ex shows_upsell (calls (snd (run env_oversize_update_fails Map.empty)))
   \<and> filter is_update (calls (snd (run env_oversize_update_fails Map.empty)))
       = [Update_download (Some ''d1'') (Upd_too_large 2147483648 1073741824),
          Update_download (Some ''d1'') (Upd_failed (Error ''Timed out''))]
   \<and> last (calls (snd (run env_oversize_update_fails Map.empty)))
       = Edit_text (Msg_error default_error_message (Error ''Timed out''))"
  by (simp add: measured_def started_def env_oversize_update_fails_def env_oversize_def
      env_ok_def eval_simps)

text \<open>
  Claim C2, amended. In every run in which extraction succeeded, the size was accepted
  (the run reaches the size check with \<open>n\<close> bytes, at most the limit), delivery
  succeeded (the upload message and the send call return), the lookup had returned a
  profile, and the three calls that follow delivery (the record update, the stats call and
  the completion message) return: the run ends at the end of the \<^verbatim>\<open>try\<close> block;
  exactly one stats call is made, setting the download counter to the looked-up value plus
  one and the byte counter to the looked-up value plus \<open>n\<close>; exactly one update of the
  record is made, to \<open>completed\<close> with title, size and duration; exactly one send call
  is made; and the local file is removed and is no longer on disk.
\<close>

theorem completed_run_bookkeeping:
  assumes "measured env fs quality url n"
    and "n \<le> max_size_for (flag is_premium (found_user env))"
    and "raises env At_edit_uploading = None" and "raises env At_send = None"
    and "found_user env = Some d"
    and "raises env At_update_completed = None" and "raises env At_sync_user = None"
    and "raises env At_edit_complete = None"
    and "run env fs = (r, w')"
  shows "r = Inr Completed
    \<and> filter is_sync (calls w') =
           [Sync_user (user_id env) (counter (total_downloads d) + 1)
              (counter (total_data_downloaded d) + int n)]
    \<and> filter is_update (calls w') =
           [Update_download (created_id env)
              (Upd_completed (media_title (extracted env)) n (info_duration (extracted env)))]
    \<and> upd_status (Upd_completed (media_title (extracted env)) n (info_duration (extracted env)))
         = ''completed''
    \<and> filter is_send (calls w') = [send_event quality (media_title (extracted env))]
    \<and> Os_remove (local_filename quality (extracted env)) \<in> set (calls w')
    \<and> files w' (local_filename quality (extracted env)) = None"
proof -
  from deliver_facts [OF assms] obtain opts where
    r: "r = Inr Completed" and
    w: "w' = \<lparr>files = (fs ++ downloaded env)(local_filename quality (extracted env) := None),
           calls = [Answer, Get_user (user_id env),
             Log_download (the_download_data env quality url), Edit_text Msg_starting,
             Edit_text Msg_downloading, Extract_info url opts,
             Edit_text Msg_uploading, Read_file (local_filename quality (extracted env)),
             send_event quality (media_title (extracted env)),
             Update_download (created_id env)
               (Upd_completed (media_title (extracted env)) n (info_duration (extracted env))),
             Sync_user (user_id env) (counter (total_downloads d) + 1)
               (counter (total_data_downloaded d) + int n),
             Edit_text Msg_complete, Os_remove (local_filename quality (extracted env))]\<rparr>"
    by blast
  show ?thesis
    using r by (simp add: w send_event_def)
qed

theorem completed_run_bookkeeping_witness:
  "measured env_ok Map.empty ''720p'' ''https://youtube.com/watch?v=X'' 314572800
   \<and> 314572800 \<le> max_size_for (flag is_premium (found_user env_ok))
   \<and> fst (run env_ok Map.empty) = Inr Completed
   \<and> filter is_sync (calls (snd (run env_ok Map.empty))) = [Sync_user ''42'' 4 314572800]
   \<and> filter is_update (calls (snd (run env_ok Map.empty)))
       = [Update_download (Some ''d1'') (Upd_completed ''Clip'' 314572800 (Some 60))]
   \<and> filter is_send (calls (snd (run env_ok Map.empty)))
       = [Send_video ''Clip.mp4'' ''Clip'' ''720p'']
   \<and> files (snd (run env_ok Map.empty)) ''/tmp/42_Clip.mp4'' = None"
proof -
  have m: "measured env_ok Map.empty ''720p'' ''https://youtube.com/watch?v=X'' 314572800"
    by (simp add: measured_def started_def env_ok_def eval_simps)
  have le: "314572800 \<le> max_size_for (flag is_premium (found_user env_ok))"
    by (simp add: env_ok_def eval_simps)
  have u: "found_user env_ok = Some \<lparr>is_premium = Some False, is_banned = None,
                          total_downloads = Some 3, total_data_downloaded = None\<rparr>"
    by (simp add: env_ok_def)
  have n: "raises env_ok At_edit_uploading = None" "raises env_ok At_send = None"
    "raises env_ok At_update_completed = None" "raises env_ok At_sync_user = None"
    "raises env_ok At_edit_complete = None"
    by (simp_all add: env_ok_def)
  have e: "local_filename ''720p'' (extracted env_ok) = ''/tmp/42_Clip.mp4''"
    "media_title (extracted env_ok) = ''Clip''" "info_duration (extracted env_ok) = Some 60"
    "user_id env_ok = ''42''" "created_id env_ok = Some ''d1''"
    by (simp_all add: env_ok_def eval_simps)
  show ?thesis
    using completed_run_bookkeeping [OF m le n(1) n(2) u n(3) n(4) n(5)
        run_pair [of env_ok Map.empty]] m le e
    by (simp add: counter_def send_event_def)
qed

text \<open>
  Claim C2 as stated fails in two ways. When the lookup finds no profile, the run
  completes and the file is sent, and no stats call is made at all. And when the user has
  a profile and the file is sent but the update of the record to \<open>completed\<close> raises,
  no stats call is made either, the record is marked \<open>failed\<close> and the file stays
  on disk.
\<close>

theorem completed_without_profile_counterexample:
  "fst (run env_no_profile Map.empty) = Inr Completed
   \<and> list_ex is_send (calls (snd (run env_no_profile Map.empty)))
   \<and> \<not> list_ex is_sync (calls (snd (run env_no_profile Map.empty)))
   \<and> found_user env_update_fails \<noteq> None
   \<and> raises env_update_fails At_send = None
   \<and> filter is_send (calls (snd (run env_update_fails Map.empty)))
       = [Send_video ''Clip.mp4'' ''Clip'' ''720p'']
   \<and> \<not> list_ex is_sync (calls (snd (run env_update_fails Map.empty)))
   \<and> last (filter is_update (calls (snd (run env_update_fails Map.empty))))
       = Update_download (Some ''d1'') (Upd_failed (Error ''Timed out''))
   \<and> files (snd (run env_update_fails Map.empty)) ''/tmp/42_Clip.mp4'' = Some 314572800"
  by (simp add: env_no_profile_def env_update_fails_def env_ok_def eval_simps)

text \<open>
  Claim C3 at a failing run: extraction writes the file, the size is accepted, the upload
  raises. The \<^verbatim>\<open>except\<close> block marks the record failed and reports the error,
  and the file is still on disk when the handler returns: no remove call was made.
\<close>

theorem delivery_failure_keeps_file:
  "fst (run env_send_fails Map.empty) = Inr Failed
   \<and> files (snd (run env_send_fails Map.empty)) ''/tmp/42_Clip.mp4'' = Some 314572800
   \<and> Os_remove ''/tmp/42_Clip.mp4'' \<notin> set (calls (snd (run env_send_fails Map.empty)))"
  by (simp add: env_send_fails_def env_ok_def eval_simps)

text \<open>
  Claim C4 at a failing run: the record is created with status \<open>downloading\<close>, the
  file is extracted and sent, and the record is updated to \<open>completed\<close>; then the
  completion message (line 336) raises. The \<^verbatim>\<open>except\<close> block updates the record
  again: both update calls return, the first with status \<open>completed\<close>, the second with
  status \<open>failed\<close>.
\<close>

theorem late_failure_updates_twice:
  "filter is_log_download (calls (snd (run env_late_failure Map.empty)))
     = [Log_download (the_download_data env_late_failure ''720p''
          ''https://youtube.com/watch?v=X'')]
   \<and> dl_status (the_download_data env_late_failure ''720p''
          ''https://youtube.com/watch?v=X'') = ''downloading''
   \<and> filter is_send (calls (snd (run env_late_failure Map.empty)))
       = [Send_video ''Clip.mp4'' ''Clip'' ''720p'']
   \<and> raises env_late_failure At_update_completed = None
   \<and> raises env_late_failure At_update_failed = None
   \<and> filter is_update (calls (snd (run env_late_failure Map.empty)))
       = [Update_download (Some ''d1'') (Upd_completed ''Clip'' 314572800 (Some 60)),
          Update_download (Some ''d1'') (Upd_failed (Error ''Timed out''))]
   \<and> map upd_status [Upd_completed ''Clip'' 314572800 (Some 60),
          Upd_failed (Error ''Timed out'')] = [''completed'', ''failed'']
   \<and> fst (run env_late_failure Map.empty) = Inr Failed"
  by (simp add: the_download_data_def env_late_failure_def env_ok_def eval_simps)

text \<open>
  Claim C5, amended. In every run where the looked-up profile says banned, no extraction
  call is made and no record is created; the files on disk are untouched; and when the
  callback is answered, the token is a quality token, a URL is pending, and the lookup and
  the message return, the run ends at line 226 after exactly three calls: the answer, the
  lookup and the ban message.
\<close>

theorem banned_user_rejected:
  assumes "flag is_banned (found_user env)"
    and "run env fs = (r, w')"
  shows "\<not> list_ex is_extract (calls w')
    \<and> \<not> list_ex is_log_download (calls w')
    \<and> files w' = fs
    \<and> (raises env At_answer = None \<and> prefix ''quality:'' (query_data env)
        \<and> pending_url env = Some url \<and> url \<noteq> []
        \<and> raises env At_get_user = None \<and> raises env At_edit_banned = None \<longrightarrow>
          r = Inr Banned
          \<and> calls w' = [Answer, Get_user (user_id env), Edit_text Msg_banned])"
proof -
  have "r = Inr Banned \<and> calls w' = [Answer, Get_user (user_id env), Edit_text Msg_banned]"
    if h: "raises env At_answer = None" "prefix ''quality:'' (query_data env)"
      "pending_url env = Some url" "url \<noteq> []"
      "raises env At_get_user = None" "raises env At_edit_banned = None"
  proof -
    from token_quality_prefix [OF h(2)] obtain q where "token_quality (query_data env) = Inr q"
      by blast
    then show ?thesis
      using banned_outcome [OF assms h(1) _ h(3) h(4) h(5) h(6)] by blast
  qed
  then show ?thesis
    using banned_calls [OF assms] by blast
qed

theorem banned_user_rejected_witness:
  "flag is_banned (found_user env_banned)
   \<and> fst (run env_banned Map.empty) = Inr Banned
   \<and> calls (snd (run env_banned Map.empty)) = [Answer, Get_user ''42'', Edit_text Msg_banned]
   \<and> \<not> list_ex is_extract (calls (snd (run env_banned Map.empty)))"
proof -
  have b: "flag is_banned (found_user env_banned)"
    by (simp add: env_banned_def env_ok_def flag_def)
  have h: "raises env_banned At_answer = None" "prefix ''quality:'' (query_data env_banned)"
    "pending_url env_banned = Some ''https://youtube.com/watch?v=X''"
    "raises env_banned At_get_user = None" "raises env_banned At_edit_banned = None"
    "user_id env_banned = ''42''"
    by (simp_all add: env_banned_def env_ok_def)
  show ?thesis
    using banned_user_rejected [where url = "''https://youtube.com/watch?v=X''",
        OF b run_pair [of env_banned Map.empty]] b h
    by simp
qed

text \<open>
  Claim C5 as stated fails in its second half: for a banned user the run ends after the
  ban message and no record is logged.
\<close>

theorem banned_user_not_logged:
  "flag is_banned (found_user env_banned)
   \<and> fst (run env_banned Map.empty) = Inr Banned
   \<and> \<not> list_ex is_log_download (calls (snd (run env_banned Map.empty)))"
  by (simp add: env_banned_def env_ok_def eval_simps)

text \<open>
  Claim C6. In every run where no URL is pending for the user, no record is created and
  no extraction call is made; and when the callback is answered, the token is a quality
  token and the message returns, the run ends at line 217 after exactly two calls: the
  answer and the session-expired message.
\<close>

theorem session_expired_outcome:
  assumes "pending_url env = None"
    and "run env fs = (r, w')"
  shows "\<not> list_ex is_log_download (calls w')
    \<and> \<not> list_ex is_extract (calls w')
    \<and> (raises env At_answer = None \<and> prefix ''quality:'' (query_data env)
        \<and> raises env At_edit_expired = None \<longrightarrow>
          r = Inr Session_expired \<and> calls w' = [Answer, Edit_text Msg_session_expired])"
proof -
  have "r = Inr Session_expired \<and> calls w' = [Answer, Edit_text Msg_session_expired]"
    if h: "raises env At_answer = None" "prefix ''quality:'' (query_data env)"
      "raises env At_edit_expired = None"
  proof -
    from token_quality_prefix [OF h(2)] obtain q where "token_quality (query_data env) = Inr q"
      by blast
    then show ?thesis
      using expired_calls(3) [OF assms h(1) _ h(3)] by blast
  qed
  then show ?thesis
    using expired_calls(1,2) [OF assms] by blast
qed

theorem session_expired_outcome_witness:
  "pending_url env_expired = None
   \<and> fst (run env_expired Map.empty) = Inr Session_expired
   \<and> calls (snd (run env_expired Map.empty)) = [Answer, Edit_text Msg_session_expired]"
proof -
  have p: "pending_url env_expired = None"
    by (simp add: env_expired_def env_ok_def)
  have h: "raises env_expired At_answer = None" "prefix ''quality:'' (query_data env_expired)"
    "raises env_expired At_edit_expired = None"
    by (simp_all add: env_expired_def env_ok_def)
  show ?thesis
    using session_expired_outcome [OF p run_pair [of env_expired Map.empty]] p h by simp
qed

text \<open>
  Claim C7. The limit is exactly \<open>2 ^ 30\<close> bytes for a user who is not premium and five
  times that for a premium user, and the check is strict: in every run that reaches the
  size check with a file of \<open>n\<close> bytes, the upload is begun exactly when \<open>n\<close> is at
  most the limit, and the record is marked too large exactly when \<open>n\<close> is above it. So
  a file of exactly the limit is accepted and one byte more is rejected.
\<close>

theorem size_limits:
  assumes "measured env fs quality url n"
    and "run env fs = (r, w')"
  shows "FREE_MAX_SIZE = 2 ^ 30 \<and> PREMIUM_MAX_SIZE = 5 * 2 ^ 30
    \<and> max_size_for False = FREE_MAX_SIZE \<and> max_size_for True = PREMIUM_MAX_SIZE
    \<and> (Edit_text Msg_uploading \<in> set (calls w')
          \<longleftrightarrow> n \<le> max_size_for (flag is_premium (found_user env)))
    \<and> (Update_download (created_id env)
          (Upd_too_large n (max_size_for (flag is_premium (found_user env)))) \<in> set (calls w')
          \<longleftrightarrow> n > max_size_for (flag is_premium (found_user env)))"
  using size_check [OF assms]
  by (simp add: FREE_MAX_SIZE_def PREMIUM_MAX_SIZE_def max_size_for_def)

theorem size_limits_witness:
  "measured env_at_limit Map.empty ''720p'' ''https://youtube.com/watch?v=X'' FREE_MAX_SIZE
   \<and> measured env_over_limit Map.empty ''720p'' ''https://youtube.com/watch?v=X''
        (FREE_MAX_SIZE + 1)
   \<and> Edit_text Msg_uploading \<in> set (calls (snd (run env_at_limit Map.empty)))
   \<and> Update_download (Some ''d1'') (Upd_too_large FREE_MAX_SIZE FREE_MAX_SIZE)
        \<notin> set (calls (snd (run env_at_limit Map.empty)))
   \<and> Edit_text Msg_uploading \<notin> set (calls (snd (run env_over_limit Map.empty)))
   \<and> Update_download (Some ''d1'') (Upd_too_large (FREE_MAX_SIZE + 1) FREE_MAX_SIZE)
        \<in> set (calls (snd (run env_over_limit Map.empty)))"
proof -
  have a: "measured env_at_limit Map.empty ''720p'' ''https://youtube.com/watch?v=X'' FREE_MAX_SIZE"
    by (simp add: measured_def started_def env_at_limit_def env_ok_def eval_simps)
  have b: "measured env_over_limit Map.empty ''720p'' ''https://youtube.com/watch?v=X''
        (FREE_MAX_SIZE + 1)"
    by (simp add: measured_def started_def env_over_limit_def env_ok_def eval_simps)
  have e: "max_size_for (flag is_premium (found_user env_at_limit)) = FREE_MAX_SIZE"
    "max_size_for (flag is_premium (found_user env_over_limit)) = FREE_MAX_SIZE"
    "created_id env_at_limit = Some ''d1''" "created_id env_over_limit = Some ''d1''"
    by (simp_all add: env_at_limit_def env_over_limit_def env_ok_def flag_def max_size_for_def)
  show ?thesis
    using size_limits [OF a run_pair [of env_at_limit Map.empty]]
      size_limits [OF b run_pair [of env_over_limit Map.empty]] a b e by simp
qed

text \<open>
  Claim C8. The keyboard carries one token per preset of the vocabulary, in order, the
  audio one last; decoding the token of each preset gives the format of that preset, with
  the height caps 180, 240, 360, 480, 720, 1080, 1440 and 2160 and no cap for \<open>best\<close> and
  \<open>audio\<close>, whatever the URL; and decoding a token whose preset is not in the vocabulary
  fails with the key error for that preset.
\<close>

theorem token_round_trip:
  "map callback_data (concat (get_quality_keyboard url))
     = map (\<lambda>q. callback_token q url) (QUALITY_OPTIONS @ [''audio''])
   \<and> map (\<lambda>q. token_quality (callback_token q url)) (QUALITY_OPTIONS @ [''audio''])
     = map Inr (QUALITY_OPTIONS @ [''audio''])
   \<and> map (\<lambda>q. decode (callback_token q url)) (QUALITY_OPTIONS @ [''audio''])
     = [Inr (Height_capped 180), Inr (Height_capped 240), Inr (Height_capped 360),
        Inr (Height_capped 480), Inr (Height_capped 720), Inr (Height_capped 1080),
        Inr (Height_capped 1440), Inr (Height_capped 2160), Inr Bestvideo_bestaudio_best,
        Inr Bestaudio_best]
   \<and> (token_quality token = Inr q \<and> q \<notin> set (QUALITY_OPTIONS @ [''audio'']) \<longrightarrow>
        decode token = Inl (KeyError q))"
proof -
  have k: "map callback_data (concat (get_quality_keyboard url))
     = map (\<lambda>q. callback_token q url) (QUALITY_OPTIONS @ [''audio''])"
    by (simp add: get_quality_keyboard_def QUALITY_OPTIONS_def Let_def)
  have t: "token_quality (callback_token q url) = Inr q"
    if "q \<in> set (QUALITY_OPTIONS @ [''audio''])" for q
    using that by (intro token_quality_callback_token) (auto simp: QUALITY_OPTIONS_def)
  then have t': "map (\<lambda>q. token_quality (callback_token q url)) (QUALITY_OPTIONS @ [''audio''])
     = map Inr (QUALITY_OPTIONS @ [''audio''])"
    by (intro map_cong) auto
  have d: "decode (callback_token q url) = select_format q"
    if "q \<in> set (QUALITY_OPTIONS @ [''audio''])" for q
    using t [OF that] by (simp add: decode_def)
  have "map (\<lambda>q. decode (callback_token q url)) (QUALITY_OPTIONS @ [''audio''])
     = map select_format (QUALITY_OPTIONS @ [''audio''])"
    using d by (intro map_cong) auto
  also have "\<dots> = [Inr (Height_capped 180), Inr (Height_capped 240), Inr (Height_capped 360),
        Inr (Height_capped 480), Inr (Height_capped 720), Inr (Height_capped 1080),
        Inr (Height_capped 1440), Inr (Height_capped 2160), Inr Bestvideo_bestaudio_best,
        Inr Bestaudio_best]"
    by (simp add: QUALITY_OPTIONS_def select_format_def heights_def)
  finally have r: "map (\<lambda>q. decode (callback_token q url)) (QUALITY_OPTIONS @ [''audio''])
     = [Inr (Height_capped 180), Inr (Height_capped 240), Inr (Height_capped 360),
        Inr (Height_capped 480), Inr (Height_capped 720), Inr (Height_capped 1080),
        Inr (Height_capped 1440), Inr (Height_capped 2160), Inr Bestvideo_bestaudio_best,
        Inr Bestaudio_best]" .
  have u: "decode token = Inl (KeyError q)"
    if "token_quality token = Inr q" "q \<notin> set (QUALITY_OPTIONS @ [''audio''])"
    using that
    by (auto simp: decode_def select_format_def heights_def QUALITY_OPTIONS_def)
  show ?thesis
    using k t' r u by blast
qed

theorem token_round_trip_witness:
  "token_quality ''quality:999p:https://youtu.be/abc'' = Inr ''999p''
   \<and> ''999p'' \<notin> set (QUALITY_OPTIONS @ [''audio''])
   \<and> decode ''quality:999p:https://youtu.be/abc'' = Inl (KeyError ''999p'')"
proof -
  have a: "token_quality ''quality:999p:https://youtu.be/abc'' = Inr ''999p''"
    by (simp add: token_quality_def py_index_def)
  have b: "''999p'' \<notin> set (QUALITY_OPTIONS @ [''audio''])"
    by (simp add: QUALITY_OPTIONS_def)
  show ?thesis
    using token_round_trip [of "[]" "''quality:999p:https://youtu.be/abc''" "''999p''"] a b
    by blast
qed

text \<open>
  Claim C10. In every run where the lookup returns no profile: the user counts as not
  banned and the limit is the Free one, \<open>2 ^ 30\<close> bytes; the ban message is never shown
  and no stats call is ever made, so a run that completes has skipped the increment; and
  when the run reaches the size check with \<open>n\<close> bytes, the upload is begun exactly when
  \<open>n\<close> is at most the Free limit.
\<close>

theorem missing_profile_defaults:
  assumes "found_user env = None"
    and "run env fs = (r, w')"
  shows "\<not> flag is_banned (found_user env)
    \<and> \<not> flag is_premium (found_user env)
    \<and> max_size_for (flag is_premium (found_user env)) = FREE_MAX_SIZE
    \<and> FREE_MAX_SIZE = 2 ^ 30
    \<and> Edit_text Msg_banned \<notin> set (calls w')
    \<and> \<not> list_ex is_sync (calls w')
    \<and> (measured env fs quality url n \<longrightarrow>
          (Edit_text Msg_uploading \<in> set (calls w') \<longleftrightarrow> n \<le> FREE_MAX_SIZE))"
proof -
  have a: "\<not> flag is_banned (found_user env)" "\<not> flag is_premium (found_user env)"
    "max_size_for (flag is_premium (found_user env)) = FREE_MAX_SIZE"
    using assms(1) by (simp_all add: flag_def max_size_for_def)
  have b: "Edit_text Msg_banned \<notin> set (calls w')"
    using never_banned_without_profile [OF assms] .
  have c: "Edit_text Msg_uploading \<in> set (calls w') \<longleftrightarrow> n \<le> FREE_MAX_SIZE"
    if "measured env fs quality url n"
    using size_check(1) [OF that assms(2)] a(3) by simp
  show ?thesis
    using a b c never_sync_without_profile [OF assms]
    by (simp add: FREE_MAX_SIZE_def)
qed

theorem missing_profile_defaults_witness:
  "found_user env_new_user = None
   \<and> measured env_new_user Map.empty ''audio'' ''https://soundcloud.com/a/b'' 5000000
   \<and> fst (run env_new_user Map.empty) = Inr Completed
   \<and> Edit_text Msg_uploading \<in> set (calls (snd (run env_new_user Map.empty)))
   \<and> \<not> list_ex is_sync (calls (snd (run env_new_user Map.empty)))"
proof -
  have u: "found_user env_new_user = None"
    by (simp add: env_new_user_def)
  have m: "measured env_new_user Map.empty ''audio'' ''https://soundcloud.com/a/b'' 5000000"
    by (simp add: measured_def started_def env_new_user_def eval_simps)
  have c: "fst (run env_new_user Map.empty) = Inr Completed"
    by (simp add: env_new_user_def eval_simps)
  show ?thesis
    using missing_profile_defaults [where quality = "''audio''"
        and url = "''https://soundcloud.com/a/b''" and n = 5000000,
        OF u run_pair [of env_new_user Map.empty]] u m c
    by (simp add: FREE_MAX_SIZE_def)
qed

end
